theory Spec2Isabelle
  imports Main
begin

section \<open>The identity service of \<^verbatim>\<open>server.mjs\<close>\<close>

text \<open>
  The server keeps two tables in a relational store, reached through the Prisma client
  (\<^verbatim>\<open>prisma/schema.prisma\<close>), and one module-level JavaScript object,
  \<^verbatim>\<open>user_session_buffer\<close>, that maps session tokens to the user found at login.
  Three route handlers work on them. The embedding below follows \<^verbatim>\<open>server.mjs\<close>
  function by function; every function takes the state and returns its outcome together
  with the state it leaves behind.
\<close>

subsection \<open>Data model (\<^verbatim>\<open>schema.prisma\<close>)\<close>

text \<open>
  \<^verbatim>\<open>model Users\<close> and \<^verbatim>\<open>model UserProfile\<close>. Both models have a column
  \<^verbatim>\<open>user_id\<close>; the two selectors are written \<open>Users.user_id\<close> and
  \<open>UserProfile.user_id\<close>. \<^verbatim>\<open>brithday\<close> (spelt as in the schema) is a
  \<^verbatim>\<open>DateTime\<close>, kept as milliseconds since the epoch.
\<close>

record Users =
  user_id :: int
  username :: string
  password :: string
  permission :: int
  auth_method :: string

record UserProfile =
  profile_id :: int
  gender :: string
  brithday :: int
  user_id :: int

text \<open>
  The JavaScript values that flow through the three functions: \<^verbatim>\<open>undefined\<close>,
  \<^verbatim>\<open>null\<close>, a row object of either table, and \<open>Builtin\<close>, a member that every
  plain object inherits from \<^verbatim>\<open>Object.prototype\<close> (a built-in function, or the
  prototype object itself); such a member has no property \<^verbatim>\<open>user_id\<close>.
\<close>

datatype jsval = Undefined | Null | UserObj Users | ProfileObj UserProfile | Builtin

text \<open>
  What the code can throw: the \<^verbatim>\<open>TypeError\<close> of reading a property of
  \<^verbatim>\<open>undefined\<close> or \<^verbatim>\<open>null\<close> (line 15), and the failures of a Prisma call:
  the store cannot be reached, the client refuses an argument of the wrong type,
  \<^verbatim>\<open>connect\<close> finds no row, a unique index is violated.
\<close>

datatype error =
  TypeError | StorageUnavailable | ValidationError | RecordNotFound | UniqueConstraint

text \<open>
  A field of the login request's body as it reaches line 26. The handler destructures
  \<^verbatim>\<open>request.body\<close> (line 71) and checks nothing, so a field is whatever the JSON
  held: nothing at all (\<^verbatim>\<open>undefined\<close>), a string, an object that the Prisma client
  reads as a filter on a string column (such as \<^verbatim>\<open>{"not": "x"}\<close>; the predicate is
  what that filter accepts), or any other value (\<^verbatim>\<open>null\<close>, a number, a boolean, an
  array, an object that is no filter).
\<close>

datatype field = Absent | Str string | StringFilter "string \<Rightarrow> bool" | Other

text \<open>
  The session registry has no lookup failure of its own: an unknown token surfaces as the
  \<^verbatim>\<open>TypeError\<close> of line 15. The specification calls that outcome
  \<^verbatim>\<open>SessionNotFound\<close>.
\<close>

abbreviation SessionNotFound :: error where
  "SessionNotFound \<equiv> TypeError"

text \<open>
  The state: the rows of both tables in the order the store scans them, the
  \<^verbatim>\<open>AUTOINCREMENT\<close> counters of the two primary keys, and the own properties of
  \<^verbatim>\<open>user_session_buffer\<close> (line 12: \<^verbatim>\<open>let user_session_buffer = {}\<close>).
\<close>

record state =
  Users_rows :: "Users list"
  UserProfile_rows :: "UserProfile list"
  Users_seq :: int
  UserProfile_seq :: int
  user_session_buffer :: "string \<rightharpoonup> jsval"

subsection \<open>The Prisma client\<close>

text \<open>
  The client is a library, not code of the repository. Its four calls are modelled from
  the schema and the client's documented behaviour. Each call takes a flag \<open>reach\<close>:
  whether the store answers that call; a call on an unreachable store throws and changes
  nothing.

  A primary key declared \<^verbatim>\<open>@default(autoincrement())\<close> on SQLite gets one more than
  the largest key the table has ever held.
\<close>

definition autoincrement :: "int \<Rightarrow> int list \<Rightarrow> int" where
  "autoincrement seq ids = fold max ids seq + 1"

text \<open>
  One entry of a \<^verbatim>\<open>where\<close> on a string column. The client leaves an entry whose
  value is \<^verbatim>\<open>undefined\<close> out of the query, so it holds of every row; a string holds
  of the rows whose column equals it; a filter object holds where its predicate does; any
  other value is refused by the client's validation.
\<close>

fun where_valid :: "field \<Rightarrow> bool" where
  "where_valid Absent = True"
| "where_valid (Str x) = True"
| "where_valid (StringFilter P) = True"
| "where_valid Other = False"

fun where_holds :: "field \<Rightarrow> string \<Rightarrow> bool" where
  "where_holds Absent c = True"
| "where_holds (Str x) c = (c = x)"
| "where_holds (StringFilter P) c = P c"
| "where_holds Other c = False"

text \<open>
  \<^verbatim>\<open>prisma.users.findFirst({ where: { username, password } })\<close>: the first row, in scan
  order, of which both entries hold; \<^verbatim>\<open>null\<close> when there is none.
\<close>

definition prisma_users_findFirst ::
  "bool \<Rightarrow> field \<Rightarrow> field \<Rightarrow> state \<Rightarrow> (error + jsval) \<times> state" where
  "prisma_users_findFirst reach un pw s =
     (if \<not> reach then (Inl StorageUnavailable, s)
      else if \<not> (where_valid un \<and> where_valid pw) then (Inl ValidationError, s)
      else (case List.find (\<lambda>u. where_holds un (username u) \<and> where_holds pw (password u))
                   (Users_rows s) of
              None \<Rightarrow> (Inr Null, s)
            | Some u \<Rightarrow> (Inr (UserObj u), s)))"

text \<open>
  \<^verbatim>\<open>prisma.userProfile.findFirst({ where: { user_id } })\<close>. A filter whose value is
  \<^verbatim>\<open>undefined\<close> (here \<open>None\<close>) is left out of the query by the client, so every row
  matches; a number selects the rows with that \<^verbatim>\<open>user_id\<close>.
\<close>

definition prisma_userProfile_findFirst ::
  "bool \<Rightarrow> int option \<Rightarrow> state \<Rightarrow> (error + jsval) \<times> state" where
  "prisma_userProfile_findFirst reach uid s =
     (if \<not> reach then (Inl StorageUnavailable, s)
      else (case List.find (\<lambda>p. case uid of None \<Rightarrow> True | Some i \<Rightarrow> UserProfile.user_id p = i)
                   (UserProfile_rows s) of
              None \<Rightarrow> (Inr Null, s)
            | Some p \<Rightarrow> (Inr (ProfileObj p), s)))"

text \<open>
  \<^verbatim>\<open>prisma.users.create({ data: { username, password, permission, auth_method } })\<close>:
  appends one row under a fresh key and returns it.
\<close>

definition prisma_users_create ::
  "bool \<Rightarrow> string \<Rightarrow> string \<Rightarrow> int \<Rightarrow> string \<Rightarrow> state \<Rightarrow> (error + Users) \<times> state" where
  "prisma_users_create reach un pw perm am s =
     (if \<not> reach then (Inl StorageUnavailable, s)
      else (let uid = autoincrement (Users_seq s) (map Users.user_id (Users_rows s));
                user = \<lparr>Users.user_id = uid, username = un, password = pw,
                        permission = perm, auth_method = am\<rparr>
            in (Inr user, s\<lparr>Users_rows := Users_rows s @ [user], Users_seq := uid\<rparr>)))"

text \<open>
  \<^verbatim>\<open>prisma.userProfile.create({ data: { gender, brithday, user: { connect: { user_id } } } })\<close>:
  \<^verbatim>\<open>connect\<close> needs a \<^verbatim>\<open>Users\<close> row with that key, and the column
  \<^verbatim>\<open>user_id\<close> is \<^verbatim>\<open>@unique\<close>; otherwise one row is appended under a fresh key.
\<close>

definition prisma_userProfile_create ::
  "bool \<Rightarrow> string \<Rightarrow> int \<Rightarrow> int \<Rightarrow> state \<Rightarrow> (error + UserProfile) \<times> state" where
  "prisma_userProfile_create reach g b uid s =
     (if \<not> reach then (Inl StorageUnavailable, s)
      else if uid \<notin> set (map Users.user_id (Users_rows s)) then (Inl RecordNotFound, s)
      else if uid \<in> set (map UserProfile.user_id (UserProfile_rows s)) then (Inl UniqueConstraint, s)
      else (let pid = autoincrement (UserProfile_seq s) (map profile_id (UserProfile_rows s));
                profile = \<lparr>profile_id = pid, gender = g, brithday = b, UserProfile.user_id = uid\<rparr>
            in (Inr profile, s\<lparr>UserProfile_rows := UserProfile_rows s @ [profile],
                                UserProfile_seq := pid\<rparr>)))"

subsection \<open>Property access on \<^verbatim>\<open>user_session_buffer\<close>\<close>

text \<open>
  \<^verbatim>\<open>user_session_buffer\<close> is an object literal, so a read that finds no own property
  goes on to \<^verbatim>\<open>Object.prototype\<close>, whose members are these.
\<close>

definition Object_prototype_keys :: "string list" where
  "Object_prototype_keys =
     [''constructor'', ''__defineGetter__'', ''__defineSetter__'', ''hasOwnProperty'',
      ''__lookupGetter__'', ''__lookupSetter__'', ''isPrototypeOf'', ''propertyIsEnumerable'',
      ''toString'', ''valueOf'', ''__proto__'', ''toLocaleString'']"

text \<open>\<^verbatim>\<open>user_session_buffer[uuid]\<close> as an expression (line 15).\<close>

definition get_property :: "(string \<rightharpoonup> jsval) \<Rightarrow> string \<Rightarrow> jsval" where
  "get_property obj key =
     (case obj key of
        Some v \<Rightarrow> v
      | None \<Rightarrow> if key \<in> set Object_prototype_keys then Builtin else Undefined)"

text \<open>
  \<^verbatim>\<open>user_session_buffer[uuid] = result\<close> (line 76), for a key that \<^verbatim>\<open>uuidv4()\<close>
  returned: it creates or replaces an own property. (Only the key \<^verbatim>\<open>__proto__\<close>
  would do something else; \<open>uuid_shaped\<close> below excludes it.)
\<close>

definition set_property :: "(string \<rightharpoonup> jsval) \<Rightarrow> string \<Rightarrow> jsval \<Rightarrow> (string \<rightharpoonup> jsval)" where
  "set_property obj key v = obj(key \<mapsto> v)"

text \<open>
  \<^verbatim>\<open>uuidv4()\<close> is a library call; its result is a parameter of the session handler.
  All that is used of it is that the canonical rendering of a UUID has 36 characters.
\<close>

definition uuid_shaped :: "string \<Rightarrow> bool" where
  "uuid_shaped t \<longleftrightarrow> length t = 36"

text \<open>
  \<^verbatim>\<open>v.user_id\<close>: throws on \<^verbatim>\<open>undefined\<close> and \<^verbatim>\<open>null\<close>, reads the column of a
  row, and is \<^verbatim>\<open>undefined\<close> (\<open>None\<close>) on a built-in.
\<close>

fun read_user_id :: "jsval \<Rightarrow> error + int option" where
  "read_user_id Undefined = Inl TypeError"
| "read_user_id Null = Inl TypeError"
| "read_user_id (UserObj u) = Inr (Some (Users.user_id u))"
| "read_user_id (ProfileObj p) = Inr (Some (UserProfile.user_id p))"
| "read_user_id Builtin = Inr None"

subsection \<open>The functions of \<^verbatim>\<open>server.mjs\<close>\<close>

text \<open>Lines 14 to 22.\<close>

definition get_userprofile_by_uuid :: "bool \<Rightarrow> string \<Rightarrow> state \<Rightarrow> (error + jsval) \<times> state" where
  "get_userprofile_by_uuid reach uuid s =
     (case read_user_id (get_property (user_session_buffer s) uuid) of
        Inl err \<Rightarrow> (Inl err, s)
      | Inr uid \<Rightarrow> prisma_userProfile_findFirst reach uid s)"

text \<open>
  Lines 24 to 29. The two arguments are the fields \<^verbatim>\<open>username\<close> and
  \<^verbatim>\<open>password\<close> of the request body, passed on as they came. (The parameters
  \<^verbatim>\<open>username\<close>, \<^verbatim>\<open>password\<close>, \<^verbatim>\<open>permission\<close> and
  \<^verbatim>\<open>auth_method\<close> of the source are \<open>un\<close>, \<open>pw\<close>, \<open>perm\<close> and \<open>am\<close> here
  and below: the long names are the column selectors.)
\<close>

definition get_user_by_auth :: "bool \<Rightarrow> field \<Rightarrow> field \<Rightarrow> state \<Rightarrow> (error + jsval) \<times> state" where
  "get_user_by_auth reach un pw s = prisma_users_findFirst reach un pw s"

text \<open>
  Lines 31 to 41. \<open>reach1\<close> and \<open>reach2\<close> are the store's answers to the two calls,
  \<open>now\<close> is \<^verbatim>\<open>new Date()\<close>. The function logs the user and has no
  \<^verbatim>\<open>return\<close>: its promise resolves to \<^verbatim>\<open>undefined\<close>.
\<close>

definition create_user ::
  "bool \<Rightarrow> bool \<Rightarrow> int \<Rightarrow> string \<Rightarrow> string \<Rightarrow> int \<Rightarrow> string \<Rightarrow> state \<Rightarrow> (error + jsval) \<times> state" where
  "create_user reach1 reach2 now un pw perm am s =
     (case prisma_users_create reach1 un pw perm am s of
        (Inl err, s1) \<Rightarrow> (Inl err, s1)
      | (Inr user, s1) \<Rightarrow>
          (case prisma_userProfile_create reach2 ''gay'' now (Users.user_id user) s1 of
             (Inl err, s2) \<Rightarrow> (Inl err, s2)
           | (Inr profile, s2) \<Rightarrow> (Inr Undefined, s2)))"

text \<open>
  The bodies the handlers send: the value returned by the lookup, \<^verbatim>\<open>{"message": "Success"}\<close>,
  \<^verbatim>\<open>{"uuid": uuid}\<close> and \<^verbatim>\<open>{"message": "Error", err}\<close>.
\<close>

datatype reply = Payload jsval | Message_Success | Uuid string | Message_Error error

text \<open>\<^verbatim>\<open>GET /api/v1/user/:uuid\<close>, lines 43 to 55.\<close>

definition get_api_v1_user :: "bool \<Rightarrow> string \<Rightarrow> state \<Rightarrow> reply \<times> state" where
  "get_api_v1_user reach uuid s =
     (case get_userprofile_by_uuid reach uuid s of
        (Inr result, s') \<Rightarrow> (Payload result, s')
      | (Inl err, s') \<Rightarrow> (Message_Error err, s'))"

text \<open>\<^verbatim>\<open>POST /api/v1/user\<close>, lines 57 to 68.\<close>

definition post_api_v1_user ::
  "bool \<Rightarrow> bool \<Rightarrow> int \<Rightarrow> string \<Rightarrow> string \<Rightarrow> state \<Rightarrow> reply \<times> state" where
  "post_api_v1_user reach1 reach2 now un pw s =
     (case create_user reach1 reach2 now un pw 0 ''local'' s of
        (Inr result, s') \<Rightarrow> (Message_Success, s')
      | (Inl err, s') \<Rightarrow> (Message_Error err, s'))"

text \<open>
  \<^verbatim>\<open>POST /api/v1/user/session\<close>, lines 70 to 83. \<open>uuid\<close> is what \<^verbatim>\<open>uuidv4()\<close>
  returned on line 74.
\<close>

definition post_api_v1_user_session ::
  "bool \<Rightarrow> string \<Rightarrow> field \<Rightarrow> field \<Rightarrow> state \<Rightarrow> reply \<times> state" where
  "post_api_v1_user_session reach uuid un pw s =
     (case get_user_by_auth reach un pw s of
        (Inr result, s') \<Rightarrow>
          (Uuid uuid, s'\<lparr>user_session_buffer := set_property (user_session_buffer s') uuid result\<rparr>)
      | (Inl err, s') \<Rightarrow> (Message_Error err, s'))"

subsection \<open>Sample states\<close>

definition alice :: Users where
  "alice = \<lparr>Users.user_id = 1, username = ''alice'', password = ''p1'',
            permission = 0, auth_method = ''local''\<rparr>"

definition alice_twin :: Users where
  "alice_twin = \<lparr>Users.user_id = 2, username = ''alice'', password = ''p1'',
                 permission = 0, auth_method = ''local''\<rparr>"

definition alice_profile :: UserProfile where
  "alice_profile = \<lparr>profile_id = 1, gender = ''gay'', brithday = 1700000000000,
                    UserProfile.user_id = 1\<rparr>"

definition empty_state :: state where
  "empty_state = \<lparr>Users_rows = [], UserProfile_rows = [], Users_seq = 0, UserProfile_seq = 0,
                  user_session_buffer = Map.empty\<rparr>"

definition alice_state :: state where
  "alice_state = \<lparr>Users_rows = [alice, alice_twin], UserProfile_rows = [alice_profile],
                  Users_seq = 2, UserProfile_seq = 1, user_session_buffer = Map.empty\<rparr>"

definition token :: string where
  "token = ''9b1deb4d-3b7d-4bad-9bdd-2b0d7b3dcb6d''"

definition token2 :: string where
  "token2 = ''1b9d6bcd-bbfd-4b2d-9b5d-ab8dfbbd4bed''"

definition session_state :: state where
  "session_state = alice_state\<lparr>user_session_buffer := [token \<mapsto> UserObj alice]\<rparr>"

definition orphan_state :: state where
  "orphan_state = \<lparr>Users_rows = [alice], UserProfile_rows = [], Users_seq = 1,
                   UserProfile_seq = 0, user_session_buffer = [token \<mapsto> UserObj alice]\<rparr>"

definition orphan_maker :: state where
  "orphan_maker = \<lparr>Users_rows = [alice], UserProfile_rows = [], Users_seq = 1,
                   UserProfile_seq = 0, user_session_buffer = Map.empty\<rparr>"

section \<open>Properties\<close>

lemma find_first_index:
  "List.find P xs = Some x \<Longrightarrow>
     \<exists>i<length xs. xs ! i = x \<and> P x \<and> (\<forall>j<i. \<not> P (xs ! j))"
  by (auto simp: find_Some_iff)

text \<open>
  When both fields are strings and the store answers, \<open>get_user_by_auth\<close> returns the
  first row of \<open>Users\<close>, in scan order, whose \<open>username\<close> and \<open>password\<close> are
  equal, as strings, to the two arguments, and \<^verbatim>\<open>null\<close> exactly when no row has both
  equal; whatever the fields and whatever the store answers, the state is left as it was.
\<close>

lemma get_user_by_auth_strings:
  "\<exists>v. get_user_by_auth True (Str un) (Str pw) s = (Inr v, s) \<and>
     ((v = Null \<and> (\<forall>u\<in>set (Users_rows s). \<not> (username u = un \<and> password u = pw))) \<or>
      (\<exists>i<length (Users_rows s).
          v = UserObj (Users_rows s ! i) \<and>
          username (Users_rows s ! i) = un \<and> password (Users_rows s ! i) = pw \<and>
          (\<forall>j<i. \<not> (username (Users_rows s ! j) = un \<and> password (Users_rows s ! j) = pw))))"
proof (cases "List.find (\<lambda>u. username u = un \<and> password u = pw) (Users_rows s)")
  case None
  then have "\<forall>u\<in>set (Users_rows s). \<not> (username u = un \<and> password u = pw)"
    by (simp add: find_None_iff)
  with None show ?thesis
    by (simp add: get_user_by_auth_def prisma_users_findFirst_def split: option.split)
next
  case (Some u)
  from find_first_index [OF Some] obtain i where
    "i < length (Users_rows s)" "Users_rows s ! i = u" "username u = un \<and> password u = pw"
    "\<forall>j<i. \<not> (username (Users_rows s ! j) = un \<and> password (Users_rows s ! j) = pw)"
    by blast
  with Some show ?thesis
    by (auto simp: get_user_by_auth_def prisma_users_findFirst_def split: option.split)
qed

lemma get_user_by_auth_read_only: "snd (get_user_by_auth reach un pw s) = s"
  by (simp add: get_user_by_auth_def prisma_users_findFirst_def split: option.split)

lemma get_user_by_auth_case_sensitive:
  "get_user_by_auth True (Str ''alice'') (Str ''p1'') alice_state = (Inr (UserObj alice), alice_state) \<and>
   get_user_by_auth True (Str ''alice'') (Str ''P1'') alice_state = (Inr Null, alice_state)"
  by (simp add: get_user_by_auth_def prisma_users_findFirst_def alice_state_def alice_def
      alice_twin_def)

text \<open>
  C1. Authentication should return a row only when its \<open>username\<close> and \<open>password\<close>
  are equal to the values supplied, and \<^verbatim>\<open>null\<close> when no row is. A login request
  whose body is \<^verbatim>\<open>{}\<close> supplies neither: both fields reach line 26 as
  \<^verbatim>\<open>undefined\<close>, the client drops both entries of the \<^verbatim>\<open>where\<close>, and the first row
  of \<open>Users\<close> is returned, although no row was matched against anything; a password
  alone, or a username alone, selects a row as well. The session handler then issues a
  token for that row.
\<close>

theorem absent_credentials_authenticate:
  "get_user_by_auth True Absent Absent alice_state = (Inr (UserObj alice), alice_state) \<and>
   get_user_by_auth True Absent (Str ''p1'') alice_state = (Inr (UserObj alice), alice_state) \<and>
   get_user_by_auth True (Str ''alice'') Absent alice_state = (Inr (UserObj alice), alice_state) \<and>
   post_api_v1_user_session True token Absent Absent alice_state = (Uuid token, session_state)"
  by (simp add: post_api_v1_user_session_def get_user_by_auth_def prisma_users_findFirst_def
      set_property_def session_state_def alice_state_def alice_def alice_twin_def)

subsection \<open>The session registry\<close>

lemma uuid_shaped_not_inherited: "uuid_shaped t \<Longrightarrow> t \<notin> set Object_prototype_keys"
  by (auto simp: uuid_shaped_def Object_prototype_keys_def)

lemma get_property_own: "obj key = Some v \<Longrightarrow> get_property obj key = v"
  by (simp add: get_property_def)

lemma get_property_absent:
  "obj key = None \<Longrightarrow> key \<notin> set Object_prototype_keys \<Longrightarrow> get_property obj key = Undefined"
  by (simp add: get_property_def)

lemma get_user_by_auth_state: "get_user_by_auth reach un pw s = (r, s') \<Longrightarrow> s' = s"
  by (auto simp: get_user_by_auth_def prisma_users_findFirst_def split: if_splits option.splits)

lemma get_user_by_auth_buffer:
  "fst (get_user_by_auth reach un pw (s\<lparr>user_session_buffer := b\<rparr>)) =
   fst (get_user_by_auth reach un pw s)"
  by (simp add: get_user_by_auth_def prisma_users_findFirst_def split: option.split)

lemma session_issued:
  "get_user_by_auth reach un pw s = (Inr identity, s1) \<Longrightarrow>
   post_api_v1_user_session reach uuid un pw s =
     (Uuid uuid, s\<lparr>user_session_buffer := (user_session_buffer s)(uuid \<mapsto> identity)\<rparr>)"
  by (frule get_user_by_auth_state) (simp add: post_api_v1_user_session_def set_property_def)

lemma session_refused:
  "get_user_by_auth reach un pw s = (Inl err, s1) \<Longrightarrow>
   post_api_v1_user_session reach uuid un pw s = (Message_Error err, s)"
  by (frule get_user_by_auth_state) (simp add: post_api_v1_user_session_def)

text \<open>
  C2. Issue, then resolve. When the lookup of line 75 returns \<open>identity\<close>, the session
  handler answers with the token \<^verbatim>\<open>uuidv4()\<close> gave it, and in the state it leaves
  \<^verbatim>\<open>user_session_buffer[uuid]\<close> is exactly \<open>identity\<close>; when that is a user row,
  \<open>get_userprofile_by_uuid\<close> on the token queries the profile of that user's
  \<open>user_id\<close>.
\<close>

theorem issue_resolve_roundtrip:
  assumes "uuid_shaped uuid"
    and "get_user_by_auth reach un pw s = (Inr identity, s1)"
  shows "\<exists>s'. post_api_v1_user_session reach uuid un pw s = (Uuid uuid, s') \<and>
           get_property (user_session_buffer s') uuid = identity \<and>
           (\<forall>u. identity = UserObj u \<longrightarrow>
              get_userprofile_by_uuid reach' uuid s' =
                prisma_userProfile_findFirst reach' (Some (Users.user_id u)) s')"
proof -
  let ?s' = "s\<lparr>user_session_buffer := (user_session_buffer s)(uuid \<mapsto> identity)\<rparr>"
  have "post_api_v1_user_session reach uuid un pw s = (Uuid uuid, ?s')"
    using assms(2) by (rule session_issued)
  moreover have got: "get_property (user_session_buffer ?s') uuid = identity"
    by (simp add: get_property_own)
  moreover have "get_userprofile_by_uuid reach' uuid ?s' =
      prisma_userProfile_findFirst reach' (Some (Users.user_id u)) ?s'" if "identity = UserObj u" for u
    using that got by (simp add: get_userprofile_by_uuid_def)
  ultimately show ?thesis by blast
qed

theorem issue_resolve_roundtrip_witness:
  "uuid_shaped token \<and>
   get_user_by_auth True (Str ''alice'') (Str ''p1'') alice_state = (Inr (UserObj alice), alice_state) \<and>
   post_api_v1_user_session True token (Str ''alice'') (Str ''p1'') alice_state = (Uuid token, session_state) \<and>
   get_property (user_session_buffer session_state) token = UserObj alice \<and>
   get_userprofile_by_uuid True token session_state = (Inr (ProfileObj alice_profile), session_state)"
proof -
  have shaped: "uuid_shaped token"
    by (simp add: uuid_shaped_def token_def)
  have auth: "get_user_by_auth True (Str ''alice'') (Str ''p1'') alice_state = (Inr (UserObj alice), alice_state)"
    by (simp add: get_user_by_auth_def prisma_users_findFirst_def alice_state_def alice_def
        alice_twin_def)
  have post: "post_api_v1_user_session True token (Str ''alice'') (Str ''p1'') alice_state = (Uuid token, session_state)"
    using session_issued [OF auth, of token] by (simp add: session_state_def alice_state_def)
  have find: "prisma_userProfile_findFirst True (Some (Users.user_id alice)) session_state =
      (Inr (ProfileObj alice_profile), session_state)"
    by (simp add: prisma_userProfile_findFirst_def session_state_def alice_state_def alice_def
        alice_profile_def)
  from issue_resolve_roundtrip [OF shaped auth, of True] post find
  show ?thesis using shaped auth by simp
qed

text \<open>
  A token that is neither an own property of the buffer nor a member of
  \<^verbatim>\<open>Object.prototype\<close> makes line 15 throw, whatever the store would answer.
\<close>

lemma unknown_token_throws:
  "user_session_buffer s uuid = None \<Longrightarrow> uuid \<notin> set Object_prototype_keys \<Longrightarrow>
   get_userprofile_by_uuid reach uuid s = (Inl SessionNotFound, s)"
  by (simp add: get_userprofile_by_uuid_def get_property_absent)

text \<open>
  C3. A token that was never issued should make the lookup fail with
  \<^verbatim>\<open>SessionNotFound\<close>. The token \<^verbatim>\<open>constructor\<close> was never issued (the buffer of
  \<open>alice_state\<close> is empty), yet \<^verbatim>\<open>user_session_buffer["constructor"]\<close> is the
  inherited built-in, its \<^verbatim>\<open>user_id\<close> is \<^verbatim>\<open>undefined\<close>, the query runs with no
  filter, and the handler answers with the first profile of the table.
\<close>

theorem never_issued_constructor_token:
  "user_session_buffer alice_state ''constructor'' = None \<and>
   get_userprofile_by_uuid True ''constructor'' alice_state =
     (Inr (ProfileObj alice_profile), alice_state) \<and>
   get_api_v1_user True ''constructor'' alice_state =
     (Payload (ProfileObj alice_profile), alice_state)"
  by (simp add: get_api_v1_user_def get_userprofile_by_uuid_def get_property_def
      Object_prototype_keys_def prisma_userProfile_findFirst_def alice_state_def)

text \<open>
  C4. Under the freshness assumption on \<^verbatim>\<open>uuidv4()\<close> (the token is not an own
  property of the buffer), two logins in a row with the same credentials, the second on
  the state the first left: both are answered with their token, the tokens differ, the
  first token was not readable before (\<^verbatim>\<open>undefined\<close>), each call adds exactly the
  mapping from its token to the identity, both mappings are there at the end, and every
  mapping of the initial buffer is still what it was.
\<close>

theorem issue_fresh_token:
  assumes shaped: "uuid_shaped uuid" "uuid_shaped uuid2"
    and auth: "get_user_by_auth reach un pw s = (Inr identity, s0)"
    and fresh1: "uuid \<notin> dom (user_session_buffer s)"
    and step1: "post_api_v1_user_session reach uuid un pw s = (r1, s1)"
    and fresh2: "uuid2 \<notin> dom (user_session_buffer s1)"
    and step2: "post_api_v1_user_session reach uuid2 un pw s1 = (r2, s2)"
  shows "r1 = Uuid uuid \<and> r2 = Uuid uuid2 \<and> uuid2 \<noteq> uuid \<and>
         get_property (user_session_buffer s) uuid = Undefined \<and>
         user_session_buffer s1 = (user_session_buffer s)(uuid \<mapsto> identity) \<and>
         user_session_buffer s2 = (user_session_buffer s1)(uuid2 \<mapsto> identity) \<and>
         dom (user_session_buffer s1) = insert uuid (dom (user_session_buffer s)) \<and>
         dom (user_session_buffer s2) = insert uuid2 (dom (user_session_buffer s1)) \<and>
         user_session_buffer s2 uuid = Some identity \<and>
         user_session_buffer s2 uuid2 = Some identity \<and>
         (\<forall>t\<in>dom (user_session_buffer s).
            user_session_buffer s1 t = user_session_buffer s t \<and>
            user_session_buffer s2 t = user_session_buffer s t)"
proof -
  let ?b = "user_session_buffer s"
  have s1: "r1 = Uuid uuid" "s1 = s\<lparr>user_session_buffer := ?b(uuid \<mapsto> identity)\<rparr>"
    using session_issued [OF auth, of uuid] step1 by simp_all
  have "fst (get_user_by_auth reach un pw s1) = Inr identity"
    using auth by (simp add: s1(2) get_user_by_auth_buffer)
  then have auth1: "get_user_by_auth reach un pw s1 = (Inr identity, snd (get_user_by_auth reach un pw s1))"
    by (metis prod.collapse)
  have s2: "r2 = Uuid uuid2" "s2 = s1\<lparr>user_session_buffer := (user_session_buffer s1)(uuid2 \<mapsto> identity)\<rparr>"
    using session_issued [OF auth1, of uuid2] step2 by simp_all
  have b1: "user_session_buffer s1 = ?b(uuid \<mapsto> identity)"
    by (simp add: s1(2))
  have b2: "user_session_buffer s2 = (user_session_buffer s1)(uuid2 \<mapsto> identity)"
    by (simp add: s2(2))
  have neq: "uuid2 \<noteq> uuid"
    using fresh2 b1 by auto
  have absent: "get_property ?b uuid = Undefined"
    using fresh1 shaped(1) by (simp add: get_property_absent uuid_shaped_not_inherited domIff)
  have kept: "\<forall>t\<in>dom ?b. user_session_buffer s1 t = ?b t \<and> user_session_buffer s2 t = ?b t"
    using fresh1 fresh2 b1 b2 by auto
  show ?thesis
    using s1(1) s2(1) neq absent b1 b2 kept by simp
qed

theorem issue_fresh_token_witness:
  "uuid_shaped token \<and> uuid_shaped token2 \<and> token \<notin> dom (user_session_buffer alice_state) \<and>
   token2 \<notin> dom (user_session_buffer session_state) \<and>
   post_api_v1_user_session True token (Str ''alice'') (Str ''p1'') alice_state = (Uuid token, session_state) \<and>
   fst (post_api_v1_user_session True token2 (Str ''alice'') (Str ''p1'') session_state) = Uuid token2 \<and>
   user_session_buffer (snd (post_api_v1_user_session True token2 (Str ''alice'') (Str ''p1'') session_state)) =
     [token \<mapsto> UserObj alice, token2 \<mapsto> UserObj alice]"
proof -
  have shaped: "uuid_shaped token" "uuid_shaped token2"
    by (simp_all add: uuid_shaped_def token_def token2_def)
  have auth: "get_user_by_auth True (Str ''alice'') (Str ''p1'') alice_state = (Inr (UserObj alice), alice_state)"
    by (simp add: get_user_by_auth_def prisma_users_findFirst_def alice_state_def alice_def
        alice_twin_def)
  have fresh1: "token \<notin> dom (user_session_buffer alice_state)"
    by (simp add: alice_state_def)
  have step1: "post_api_v1_user_session True token (Str ''alice'') (Str ''p1'') alice_state = (Uuid token, session_state)"
    using session_issued [OF auth, of token] by (simp add: session_state_def alice_state_def)
  have fresh2: "token2 \<notin> dom (user_session_buffer session_state)"
    by (simp add: session_state_def token_def token2_def)
  have step2: "post_api_v1_user_session True token2 (Str ''alice'') (Str ''p1'') session_state =
      (fst (post_api_v1_user_session True token2 (Str ''alice'') (Str ''p1'') session_state),
       snd (post_api_v1_user_session True token2 (Str ''alice'') (Str ''p1'') session_state))"
    by simp
  have b: "user_session_buffer session_state = [token \<mapsto> UserObj alice]"
    by (simp add: session_state_def)
  from issue_fresh_token [OF shaped auth fresh1 step1 fresh2 step2]
  show ?thesis using shaped fresh1 fresh2 step1 b by simp
qed

subsection \<open>Registration\<close>

lemma fold_max_ge_start: "(seq :: int) \<le> fold max ids seq"
proof (induction ids arbitrary: seq)
  case Nil
  show ?case by simp
next
  case (Cons x xs)
  have "seq \<le> max x seq" by simp
  also have "max x seq \<le> fold max xs (max x seq)" by (rule Cons.IH)
  finally show ?case by simp
qed

lemma fold_max_ge_member: "(i :: int) \<in> set ids \<Longrightarrow> i \<le> fold max ids seq"
proof (induction ids arbitrary: seq)
  case Nil
  then show ?case by simp
next
  case (Cons x xs)
  show ?case
  proof (cases "i = x")
    case True
    have "i \<le> max x seq" using True by simp
    also have "max x seq \<le> fold max xs (max x seq)" by (rule fold_max_ge_start)
    finally show ?thesis by simp
  next
    case False
    with Cons.prems have "i \<in> set xs" by simp
    then show ?thesis by (simp add: Cons.IH)
  qed
qed

lemma autoincrement_fresh: "autoincrement seq ids \<notin> set ids"
proof
  assume "autoincrement seq ids \<in> set ids"
  then have "autoincrement seq ids \<le> fold max ids seq" by (rule fold_max_ge_member)
  then show False by (simp add: autoincrement_def)
qed

lemma prisma_users_create_result:
  assumes "prisma_users_create reach un pw perm am s = (Inr u, s1)"
  shows "Users_rows s1 = Users_rows s @ [u]" "UserProfile_rows s1 = UserProfile_rows s"
    "user_session_buffer s1 = user_session_buffer s"
    "username u = un" "password u = pw" "permission u = perm" "auth_method u = am"
    "Users.user_id u \<notin> set (map Users.user_id (Users_rows s))"
  using assms autoincrement_fresh [of "Users_seq s" "map Users.user_id (Users_rows s)"]
  by (auto simp: prisma_users_create_def Let_def split: if_splits)

lemma prisma_users_create_failed:
  "prisma_users_create reach un pw perm am s = (Inl e, s1) \<Longrightarrow> s1 = s"
  by (auto simp: prisma_users_create_def Let_def split: if_splits)

lemma prisma_userProfile_create_result:
  assumes "prisma_userProfile_create reach g b uid s = (Inr p, s1)"
  shows "UserProfile_rows s1 = UserProfile_rows s @ [p]" "Users_rows s1 = Users_rows s"
    "user_session_buffer s1 = user_session_buffer s"
    "gender p = g" "brithday p = b" "UserProfile.user_id p = uid"
    "uid \<notin> set (map UserProfile.user_id (UserProfile_rows s))"
    "uid \<in> set (map Users.user_id (Users_rows s))"
  using assms
  by (auto simp: prisma_userProfile_create_def Let_def split: if_splits)

lemma prisma_userProfile_create_failed:
  "prisma_userProfile_create reach g b uid s = (Inl e, s1) \<Longrightarrow> s1 = s"
  by (auto simp: prisma_userProfile_create_def Let_def split: if_splits)

lemma create_user_cases:
  assumes "create_user reach1 reach2 now un pw perm am s = (r, s')"
  obtains
    (user_failed) e where "prisma_users_create reach1 un pw perm am s = (Inl e, s')" "r = Inl e"
  | (profile_failed) u s1 e where "prisma_users_create reach1 un pw perm am s = (Inr u, s1)"
      "prisma_userProfile_create reach2 ''gay'' now (Users.user_id u) s1 = (Inl e, s')" "r = Inl e"
  | (created) u s1 p where "prisma_users_create reach1 un pw perm am s = (Inr u, s1)"
      "prisma_userProfile_create reach2 ''gay'' now (Users.user_id u) s1 = (Inr p, s')"
      "r = Inr Undefined"
  using assms unfolding create_user_def
  by (auto split: prod.splits sum.splits)

text \<open>
  C5. A registration that succeeds appends exactly one row to \<open>Users\<close> and exactly one
  row to \<open>UserProfile\<close>; the profile's \<open>user_id\<close> is the key of the new user, no
  earlier profile carries that \<open>user_id\<close>, its \<open>gender\<close> is the fixed string of
  line 38 and its \<open>brithday\<close> is the time of the call.
\<close>

theorem create_user_creates_profile:
  assumes "create_user reach1 reach2 now un pw perm am s = (Inr v, s')"
  shows "\<exists>u p. Users_rows s' = Users_rows s @ [u] \<and>
           UserProfile_rows s' = UserProfile_rows s @ [p] \<and>
           username u = un \<and> password u = pw \<and>
           UserProfile.user_id p = Users.user_id u \<and>
           Users.user_id u \<notin> set (map UserProfile.user_id (UserProfile_rows s)) \<and>
           gender p = ''gay'' \<and> brithday p = now"
  using assms
proof (cases rule: create_user_cases)
  case (created u s1 p)
  note user = prisma_users_create_result [OF created(1)]
  note prof = prisma_userProfile_create_result [OF created(2)]
  have "Users_rows s' = Users_rows s @ [u]"
    using user(1) prof(2) by simp
  moreover have "UserProfile_rows s' = UserProfile_rows s @ [p]"
    using user(2) prof(1) by simp
  moreover have "Users.user_id u \<notin> set (map UserProfile.user_id (UserProfile_rows s))"
    using user(2) prof(7) by simp
  ultimately show ?thesis
    using user(4,5) prof(4,5,6) by blast
qed simp_all

theorem create_user_creates_profile_witness:
  "create_user True True 1700000000000 ''alice'' ''p1'' 0 ''local'' empty_state =
     (Inr Undefined,
      \<lparr>Users_rows = [alice], UserProfile_rows = [alice_profile], Users_seq = 1,
       UserProfile_seq = 1, user_session_buffer = Map.empty\<rparr>) \<and>
   UserProfile.user_id alice_profile = Users.user_id alice \<and>
   gender alice_profile = ''gay'' \<and> brithday alice_profile = 1700000000000"
proof -
  have run: "create_user True True 1700000000000 ''alice'' ''p1'' 0 ''local'' empty_state =
     (Inr Undefined,
      \<lparr>Users_rows = [alice], UserProfile_rows = [alice_profile], Users_seq = 1,
       UserProfile_seq = 1, user_session_buffer = Map.empty\<rparr>)"
    by (simp add: create_user_def prisma_users_create_def prisma_userProfile_create_def
        autoincrement_def empty_state_def alice_def alice_profile_def Let_def)
  from create_user_creates_profile [OF run] show ?thesis
    using run by (simp add: alice_def alice_profile_def)
qed

text \<open>
  C7, as the code has it. \<open>create_user\<close> has no \<^verbatim>\<open>return\<close>: a registration that
  succeeds hands \<^verbatim>\<open>undefined\<close> to the handler, which answers
  \<^verbatim>\<open>{"message": "Success"}\<close>; the new row is written to the log only.
\<close>

theorem create_user_returns_undefined:
  assumes "create_user reach1 reach2 now un pw 0 ''local'' s = (Inr v, s')"
  shows "v = Undefined \<and> post_api_v1_user reach1 reach2 now un pw s = (Message_Success, s')"
proof -
  from assms have "v = Undefined"
    by (cases rule: create_user_cases) simp_all
  then show ?thesis
    using assms by (simp add: post_api_v1_user_def)
qed

theorem create_user_returns_undefined_witness:
  "fst (create_user True True 1700000000000 ''alice'' ''p1'' 0 ''local'' empty_state) = Inr Undefined \<and>
   fst (post_api_v1_user True True 1700000000000 ''alice'' ''p1'' empty_state) = Message_Success"
proof -
  obtain v s' where
    run: "create_user True True 1700000000000 ''alice'' ''p1'' 0 ''local'' empty_state = (Inr v, s')"
    by (simp add: create_user_def prisma_users_create_def prisma_userProfile_create_def
        autoincrement_def empty_state_def Let_def)
  from create_user_returns_undefined [OF run] show ?thesis
    using run by simp
qed

text \<open>
  C7, as the claim states it, fails: registering alice in the empty store creates her
  row, and the value handed back is \<^verbatim>\<open>undefined\<close>, not that row.
\<close>

theorem create_user_returns_user_counterexample:
  "Users_rows (snd (create_user True True 1700000000000 ''alice'' ''p1'' 0 ''local'' empty_state)) = [alice] \<and>
   fst (create_user True True 1700000000000 ''alice'' ''p1'' 0 ''local'' empty_state) \<noteq> Inr (UserObj alice)"
  by (simp add: create_user_def prisma_users_create_def prisma_userProfile_create_def
      autoincrement_def empty_state_def alice_def Let_def)

text \<open>
  C8. When the first creation succeeds and the second fails, \<open>create_user\<close> throws the
  second call's error and leaves the state as the first call made it: the new user row is
  in \<open>Users\<close>, no profile was added, and the handler answers with the error body.
\<close>

theorem create_user_not_atomic:
  assumes "prisma_users_create reach1 un pw 0 ''local'' s = (Inr u, s1)"
    and "prisma_userProfile_create reach2 ''gay'' now (Users.user_id u) s1 = (Inl e, s2)"
  shows "create_user reach1 reach2 now un pw 0 ''local'' s = (Inl e, s2) \<and>
         post_api_v1_user reach1 reach2 now un pw s = (Message_Error e, s2) \<and>
         Users_rows s2 = Users_rows s @ [u] \<and> u \<in> set (Users_rows s2) \<and>
         UserProfile_rows s2 = UserProfile_rows s"
proof -
  have run: "create_user reach1 reach2 now un pw 0 ''local'' s = (Inl e, s2)"
    using assms by (simp add: create_user_def)
  have "s2 = s1"
    using assms(2) by (rule prisma_userProfile_create_failed)
  then have "Users_rows s2 = Users_rows s @ [u]" "UserProfile_rows s2 = UserProfile_rows s"
    using prisma_users_create_result(1,2) [OF assms(1)] by simp_all
  then show ?thesis
    using run by (simp add: post_api_v1_user_def)
qed

theorem create_user_not_atomic_witness:
  "prisma_users_create True ''alice'' ''p1'' 0 ''local'' empty_state = (Inr alice, orphan_maker) \<and>
   prisma_userProfile_create False ''gay'' 1700000000000 (Users.user_id alice) orphan_maker =
     (Inl StorageUnavailable, orphan_maker) \<and>
   create_user True False 1700000000000 ''alice'' ''p1'' 0 ''local'' empty_state =
     (Inl StorageUnavailable, orphan_maker) \<and>
   Users_rows orphan_maker = [alice] \<and> UserProfile_rows orphan_maker = []"
proof -
  have first: "prisma_users_create True ''alice'' ''p1'' 0 ''local'' empty_state = (Inr alice, orphan_maker)"
    by (simp add: prisma_users_create_def autoincrement_def empty_state_def alice_def
        orphan_maker_def Let_def)
  have second: "prisma_userProfile_create False ''gay'' 1700000000000 (Users.user_id alice) orphan_maker =
      (Inl StorageUnavailable, orphan_maker)"
    by (simp add: prisma_userProfile_create_def)
  from create_user_not_atomic [OF first second] show ?thesis
    using first second by (simp add: empty_state_def)
qed

subsection \<open>Profile lookup\<close>

lemma prisma_userProfile_findFirst_state:
  "snd (prisma_userProfile_findFirst reach uid s) = s"
  by (simp add: prisma_userProfile_findFirst_def split: option.split)

lemma get_userprofile_by_uuid_state: "snd (get_userprofile_by_uuid reach uuid s) = s"
  by (simp add: get_userprofile_by_uuid_def prisma_userProfile_findFirst_state split: sum.split)

text \<open>
  C6, as the code has it. The token resolves to a user row and no profile carries that
  user's \<open>user_id\<close>: when the store answers, the query finds nothing and the lookup
  returns \<^verbatim>\<open>null\<close> as its normal result, which the handler sends as the payload;
  the only failure left on this path is the store's own.
\<close>

theorem lookup_without_profile_returns_null:
  assumes "user_session_buffer s uuid = Some (UserObj u)"
    and "Users.user_id u \<notin> set (map UserProfile.user_id (UserProfile_rows s))"
  shows "get_userprofile_by_uuid True uuid s = (Inr Null, s) \<and>
         get_api_v1_user True uuid s = (Payload Null, s) \<and>
         get_userprofile_by_uuid False uuid s = (Inl StorageUnavailable, s)"
proof -
  have read: "read_user_id (get_property (user_session_buffer s) uuid) = Inr (Some (Users.user_id u))"
    using assms(1) by (simp add: get_property_own)
  have "List.find (\<lambda>p. UserProfile.user_id p = Users.user_id u) (UserProfile_rows s) = None"
    using assms(2) by (force simp: find_None_iff)
  then have found: "prisma_userProfile_findFirst True (Some (Users.user_id u)) s = (Inr Null, s)"
    by (simp add: prisma_userProfile_findFirst_def)
  have lost: "prisma_userProfile_findFirst False (Some (Users.user_id u)) s = (Inl StorageUnavailable, s)"
    by (simp add: prisma_userProfile_findFirst_def)
  show ?thesis
    using read found lost by (simp add: get_api_v1_user_def get_userprofile_by_uuid_def)
qed

theorem lookup_without_profile_returns_null_witness:
  "user_session_buffer orphan_state token = Some (UserObj alice) \<and>
   Users.user_id alice \<notin> set (map UserProfile.user_id (UserProfile_rows orphan_state)) \<and>
   get_api_v1_user True token orphan_state = (Payload Null, orphan_state)"
proof -
  have held: "user_session_buffer orphan_state token = Some (UserObj alice)"
    by (simp add: orphan_state_def)
  have none: "Users.user_id alice \<notin> set (map UserProfile.user_id (UserProfile_rows orphan_state))"
    by (simp add: orphan_state_def)
  from lookup_without_profile_returns_null [OF held none] show ?thesis
    using held none by simp
qed

text \<open>
  C6, as the claim states it, fails: in \<open>orphan_state\<close> the token resolves to alice,
  alice has no profile, and the lookup does not throw: it returns \<^verbatim>\<open>null\<close>.
\<close>

theorem lookup_profile_not_found_counterexample:
  "get_property (user_session_buffer orphan_state) token = UserObj alice \<and>
   UserProfile_rows orphan_state = [] \<and>
   get_userprofile_by_uuid True token orphan_state = (Inr Null, orphan_state)"
  by (simp add: get_userprofile_by_uuid_def get_property_def prisma_userProfile_findFirst_def
      orphan_state_def)

text \<open>
  C9. For a token that the buffer maps to a user row, \<^verbatim>\<open>user_session_buffer[uuid]\<close> is
  that row, the first lookup leaves the state as it was, the same read on the state it
  leaves gives the same row, and the second lookup leaves the state unchanged as well;
  with the same answer from the store the two lookups return the same result.
\<close>

theorem resolve_idempotent:
  assumes "user_session_buffer s uuid = Some (UserObj u)"
  shows "get_property (user_session_buffer s) uuid = UserObj u \<and>
         snd (get_userprofile_by_uuid reach1 uuid s) = s \<and>
         get_property (user_session_buffer (snd (get_userprofile_by_uuid reach1 uuid s))) uuid = UserObj u \<and>
         snd (get_userprofile_by_uuid reach2 uuid (snd (get_userprofile_by_uuid reach1 uuid s))) = s \<and>
         get_userprofile_by_uuid reach1 uuid (snd (get_userprofile_by_uuid reach1 uuid s)) =
           get_userprofile_by_uuid reach1 uuid s"
  using assms by (simp add: get_userprofile_by_uuid_state get_property_own)

theorem resolve_idempotent_witness:
  "user_session_buffer session_state token = Some (UserObj alice) \<and>
   get_property (user_session_buffer session_state) token = UserObj alice \<and>
   get_userprofile_by_uuid True token session_state = (Inr (ProfileObj alice_profile), session_state) \<and>
   get_userprofile_by_uuid True token (snd (get_userprofile_by_uuid True token session_state)) =
     (Inr (ProfileObj alice_profile), session_state)"
proof -
  have held: "user_session_buffer session_state token = Some (UserObj alice)"
    by (simp add: session_state_def)
  have once: "get_userprofile_by_uuid True token session_state =
      (Inr (ProfileObj alice_profile), session_state)"
    by (simp add: get_userprofile_by_uuid_def get_property_def prisma_userProfile_findFirst_def
        session_state_def alice_state_def alice_def alice_profile_def)
  from resolve_idempotent [OF held, of True True] show ?thesis
    using held once by simp
qed



end
